theory Spec2Isabelle
  imports Main
begin

section \<open>The constraint set built by SampleSystem.ipynb\<close>

text \<open>
  The second code cell of the notebook tags the atoms of the slab with its adsorbate and
  fixes the atoms whose tag is 0:
  \<^verbatim>\<open>
  tags = np.zeros(len(adslab))
  tags[18:27] = 1
  tags[27:] = 2
  adslab.set_tags(tags)
  cons= FixAtoms(indices=[atom.index for atom in adslab if (atom.tag == 0)])
  adslab.set_constraint(cons)
  \<close>
  An array is a list. A slice assignment of numpy writes the value at the positions of
  the slice that exist and leaves the length of the array alone.
\<close>

definition slice_assign :: "nat \<Rightarrow> nat \<Rightarrow> 'a \<Rightarrow> 'a list \<Rightarrow> 'a list" where
  \<comment> \<open>\<^verbatim>\<open>xs[lo:hi] = v\<close>\<close>
  "slice_assign lo hi v xs =
     map (\<lambda>(i, x). if lo \<le> i \<and> i < hi then v else x) (enumerate 0 xs)"

definition slice_assign_from :: "nat \<Rightarrow> 'a \<Rightarrow> 'a list \<Rightarrow> 'a list" where
  \<comment> \<open>\<^verbatim>\<open>xs[lo:] = v\<close>\<close>
  "slice_assign_from lo v xs =
     map (\<lambda>(i, x). if lo \<le> i then v else x) (enumerate 0 xs)"

text \<open>The tags of a structure of \<open>n\<close> atoms (\<open>n\<close> is \<^verbatim>\<open>len(adslab)\<close>).\<close>

definition tags :: "nat \<Rightarrow> nat list" where
  "tags n = slice_assign_from 27 2 (slice_assign 18 27 1 (replicate n 0))"

text \<open>The list comprehension: the indices of the atoms whose tag is 0, in atom order.\<close>

definition fix_atoms_indices :: "nat list \<Rightarrow> nat list" where
  "fix_atoms_indices tgs = map fst (filter (\<lambda>(i, tag). tag = 0) (enumerate 0 tgs))"

definition cons :: "nat \<Rightarrow> nat list" where
  "cons n = fix_atoms_indices (tags n)"

text \<open>
  Modelled from the spec: the class \<^verbatim>\<open>FixAtoms\<close>, whose force adjustment the relaxation
  calls, belongs to the ASE library and is not part of the repository's sources. The
  specification (4.2) gives the operation as \<^verbatim>\<open>project_forces(forces) -> forces'\<close>, which
  "zeroes (or otherwise nullifies) the force components for constrained atoms"; the
  constraint set is "a set of atom indices marked immovable" and the forces are an
  "ordered sequence of 3D vectors, one per atom". A vector is a triple of components;
  the type of the components is left open, it only needs a zero.
\<close>

definition project_forces :: "nat list \<Rightarrow> ('a::zero \<times> 'a \<times> 'a) list \<Rightarrow> ('a \<times> 'a \<times> 'a) list" where
  "project_forces indices forces =
     map (\<lambda>(i, f). if i \<in> set indices then (0, 0, 0) else f) (enumerate 0 forces)"

section \<open>The xyz export cell of SampleSystem.ipynb\<close>

text \<open>
  The last code cell of the notebook converts the stored relaxation trajectory into an
  xyz file:
  \<^verbatim>\<open>
  trajectory = TrajectoryReader(trajectory_path)
  output_file_name = "data/toy_c3h8_relax.xyz"
  for i, atoms in enumerate(trajectory):
      if i==0:
          write(output_file_name, atoms)
      else:
          write(output_file_name, atoms, append=True)
  \<close>
  The trajectory is the ordered sequence of snapshots the reader yields: a list. The file
  system is a map from file names to file contents, a file's content being the list of
  the frames written to it; a name that is not mapped is a file that does not exist.
\<close>

type_synonym ('n, 'f) files = "'n \<rightharpoonup> 'f list"

text \<open>
  Modelled from the spec: \<^verbatim>\<open>ase.io.write\<close> is a routine of the ASE library, which is
  not part of the repository's sources. Its contract is taken from the words of the
  export property: a write without append mode overwrites any existing file, so that
  the file then holds the one frame written; a write in append mode adds the frame
  after what the file holds already, creating the file when it is missing. The
  rendering of a snapshot as a frame is the parameter \<open>fmt\<close>.
\<close>

definition write_xyz :: "('a \<Rightarrow> 'f) \<Rightarrow> 'n \<Rightarrow> 'a \<Rightarrow> bool \<Rightarrow> ('n, 'f) files \<Rightarrow> ('n, 'f) files" where
  "write_xyz fmt filename atoms app fs =
     (if app
      then fs(filename \<mapsto> (case fs filename of None \<Rightarrow> [] | Some frames \<Rightarrow> frames) @ [fmt atoms])
      else fs(filename \<mapsto> [fmt atoms]))"

text \<open>
  The loop body, over the pairs that \<^verbatim>\<open>enumerate(trajectory)\<close> yields: the pair with
  index 0 is written without append mode, every other pair with \<^verbatim>\<open>append=True\<close>.
\<close>

fun export_loop :: "('a \<Rightarrow> 'f) \<Rightarrow> 'n \<Rightarrow> (nat \<times> 'a) list \<Rightarrow> ('n, 'f) files \<Rightarrow> ('n, 'f) files" where
  "export_loop fmt output_file_name [] fs = fs"
| "export_loop fmt output_file_name ((i, atoms) # rest) fs =
     export_loop fmt output_file_name rest
       (if i = 0 then write_xyz fmt output_file_name atoms False fs
        else write_xyz fmt output_file_name atoms True fs)"

text \<open>The whole cell: Python's \<^verbatim>\<open>enumerate\<close> counts from 0.\<close>

definition export_xyz :: "('a \<Rightarrow> 'f) \<Rightarrow> 'n \<Rightarrow> 'a list \<Rightarrow> ('n, 'f) files \<Rightarrow> ('n, 'f) files" where
  "export_xyz fmt output_file_name trajectory fs =
     export_loop fmt output_file_name (enumerate 0 trajectory) fs"

section \<open>Properties of the constraint set\<close>

text \<open>The tags as a function of the atom's index.\<close>

lemma tags_eq:
  "tags n = map (\<lambda>i. if 27 \<le> i then 2 else if 18 \<le> i then 1 else 0) [0..<n]"
  unfolding tags_def slice_assign_from_def slice_assign_def
  by (rule nth_equalityI) (auto simp: nth_enumerate_eq)

lemma filter_less_upt: "filter (\<lambda>i. i < m) [0..<n] = [0..<min m n]"
proof (induction n)
  case 0
  then show ?case by simp
next
  case (Suc n)
  show ?case
  proof (cases "n < m")
    case True
    then have "min m (Suc n) = Suc (min m n)" by (simp add: min_def)
    with True Suc show ?thesis by (simp add: min_def)
  next
    case False
    then have "min m (Suc n) = min m n" by (simp add: min_def)
    with False Suc show ?thesis by simp
  qed
qed

text \<open>
  The notebook fixes the first 18 atoms (the two bottom layers of the 3 x 3 x 3 slab),
  or every atom of a structure that has fewer.
\<close>

lemma cons_eq: "cons n = [0..<min 18 n]"
proof -
  have "cons n = filter (\<lambda>i. i < 18) [0..<n]"
    unfolding cons_def fix_atoms_indices_def tags_eq
    by (simp add: enumerate_map_upt filter_map comp_def) (rule filter_cong, auto)
  then show ?thesis by (simp add: filter_less_upt)
qed

lemma length_project_forces: "length (project_forces indices forces) = length forces"
  by (simp add: project_forces_def)

text \<open>A constrained atom gets the zero vector, a free atom keeps its force.\<close>

lemma nth_project_forces:
  "i < length forces \<Longrightarrow>
   project_forces indices forces ! i = (if i \<in> set indices then (0, 0, 0) else forces ! i)"
  by (simp add: project_forces_def nth_enumerate_eq)

lemma project_forces_example:
  "project_forces (cons 20) (map (\<lambda>i. (int i, 1, 2)) [0..<20])
   = replicate 18 (0, 0, 0) @ [(18, 1, 2), (19, 1, 2)]"
  by code_simp

text \<open>
  C8: projecting the forces is idempotent. For every constraint set and every force
  array, applying \<open>project_forces\<close> twice in succession yields the same array as
  applying it once.
\<close>

theorem project_forces_idempotent:
  "project_forces indices (project_forces indices forces) = project_forces indices forces"
  by (rule nth_equalityI) (simp_all add: length_project_forces nth_project_forces)

section \<open>Properties of the export\<close>

text \<open>
  Once the file exists, the iterations with a positive index only append: the file grows
  by the frames of the remaining snapshots, in their order.
\<close>

lemma export_loop_appends:
  assumes "0 < k" and "fs output_file_name = Some frames"
  shows "export_loop fmt output_file_name (enumerate k trajectory) fs
         = fs(output_file_name \<mapsto> frames @ map fmt trajectory)"
  using assms
proof (induction trajectory arbitrary: k fs frames)
  case Nil
  then show ?case by (simp add: map_upd_triv)
next
  case (Cons a trajectory)
  let ?fs = "write_xyz fmt output_file_name a True fs"
  have step: "?fs output_file_name = Some (frames @ [fmt a])"
    using Cons.prems by (simp add: write_xyz_def)
  have "export_loop fmt output_file_name (enumerate k (a # trajectory)) fs
        = export_loop fmt output_file_name (enumerate (Suc k) trajectory) ?fs"
    using Cons.prems by simp
  also have "\<dots> = ?fs(output_file_name \<mapsto> (frames @ [fmt a]) @ map fmt trajectory)"
    by (rule Cons.IH) (simp_all add: step)
  also have "\<dots> = fs(output_file_name \<mapsto> frames @ map fmt (a # trajectory))"
    by (simp add: write_xyz_def)
  finally show ?case .
qed

text \<open>With no snapshot the loop body never runs: no file is written.\<close>

lemma export_xyz_Nil: "export_xyz fmt output_file_name [] fs = fs"
  by (simp add: export_xyz_def)

text \<open>
  With a first snapshot, the write without append mode replaces whatever the file held,
  and the rest is appended.
\<close>

lemma export_xyz_Cons:
  "export_xyz fmt output_file_name (a # trajectory) fs
   = fs(output_file_name \<mapsto> map fmt (a # trajectory))"
proof -
  let ?fs = "write_xyz fmt output_file_name a False fs"
  have first: "?fs output_file_name = Some [fmt a]"
    by (simp add: write_xyz_def)
  have "export_xyz fmt output_file_name (a # trajectory) fs
        = export_loop fmt output_file_name (enumerate (Suc 0) trajectory) ?fs"
    by (simp add: export_xyz_def)
  also have "\<dots> = ?fs(output_file_name \<mapsto> [fmt a] @ map fmt trajectory)"
    by (rule export_loop_appends) (simp_all add: first)
  also have "\<dots> = fs(output_file_name \<mapsto> map fmt (a # trajectory))"
    by (simp add: write_xyz_def)
  finally show ?thesis .
qed

lemma export_xyz_eq:
  "export_xyz fmt output_file_name trajectory fs
   = (if trajectory = [] then fs else fs(output_file_name \<mapsto> map fmt trajectory))"
  by (cases trajectory) (simp_all add: export_xyz_Nil export_xyz_Cons)

text \<open>
  C10, as stated, at the empty trajectory: the loop body never runs, so an output file
  left by an earlier export keeps its frames. Here the file holds one frame after the
  export although the trajectory has no snapshot.
\<close>

theorem export_xyz_empty_keeps_stale_file:
  "export_xyz Suc ''data/toy_c3h8_relax.xyz'' []
      [''data/toy_c3h8_relax.xyz'' \<mapsto> [7]] ''data/toy_c3h8_relax.xyz'' = Some [7]
   \<and> length [7::nat] \<noteq> length ([]::nat list)"
  by (simp add: export_xyz_def)

text \<open>
  C10 (amended): for every trajectory of length \<open>n \<ge> 1\<close> the export leaves exactly \<open>n\<close>
  frames in the output file, frame \<open>i\<close> being the rendering of snapshot \<open>i\<close>, whatever
  the file held before (the first frame is written without append mode), and it touches
  no other file. For every trajectory, running the whole export a second time gives the
  same files as running it once.
\<close>

theorem export_xyz_frames:
  "(trajectory \<noteq> [] \<longrightarrow>
      export_xyz fmt output_file_name trajectory fs
        = fs(output_file_name \<mapsto> map fmt trajectory)
      \<and> (\<exists>frames. export_xyz fmt output_file_name trajectory fs output_file_name = Some frames
            \<and> length frames = length trajectory
            \<and> (\<forall>i < length trajectory. frames ! i = fmt (trajectory ! i))))
   \<and> export_xyz fmt output_file_name trajectory
        (export_xyz fmt output_file_name trajectory fs)
      = export_xyz fmt output_file_name trajectory fs"
  by (simp add: export_xyz_eq)

theorem export_xyz_frames_witness:
  "[10, 20, 30 :: nat] \<noteq> []
   \<and> export_xyz Suc ''data/toy_c3h8_relax.xyz'' [10, 20, 30]
        [''data/toy_c3h8_relax.xyz'' \<mapsto> [7]] ''data/toy_c3h8_relax.xyz''
      = Some [11, 21, 31]
   \<and> export_xyz Suc ''data/toy_c3h8_relax.xyz'' [10, 20, 30]
        (export_xyz Suc ''data/toy_c3h8_relax.xyz'' [10, 20, 30]
          [''data/toy_c3h8_relax.xyz'' \<mapsto> [7]]) ''data/toy_c3h8_relax.xyz''
      = Some [11, 21, 31]"
proof -
  let ?out = "''data/toy_c3h8_relax.xyz''"
  let ?fs = "[?out \<mapsto> [7::nat]]"
  note frames = export_xyz_frames [of "[10, 20, 30]" Suc ?out ?fs]
  have nonempty: "[10, 20, 30 :: nat] \<noteq> []"
    by simp
  from frames nonempty
  have once: "export_xyz Suc ?out [10, 20, 30] ?fs = ?fs(?out \<mapsto> map Suc [10, 20, 30])"
    by blast
  from frames
  have twice: "export_xyz Suc ?out [10, 20, 30] (export_xyz Suc ?out [10, 20, 30] ?fs)
               = export_xyz Suc ?out [10, 20, 30] ?fs"
    by blast
  have "export_xyz Suc ?out [10, 20, 30] ?fs ?out = Some [11, 21, 31]"
    by (simp add: once)
  moreover have "export_xyz Suc ?out [10, 20, 30] (export_xyz Suc ?out [10, 20, 30] ?fs) ?out
                 = Some [11, 21, 31]"
    by (simp only: twice) (simp add: once)
  ultimately show ?thesis
    using nonempty by blast
qed

end
